theory Spec2Isabelle
  imports Main "HOL-Library.Sublist"
begin

section \<open>The long-barrel ideal-geometry configuration fragment\<close>

text \<open>
  The repository slice is one Python configuration file,
  \<^verbatim>\<open>trunk/xml/longbarrel_cmsIdealGeometryXML_cff.py\<close>, of three statements:
  \<^verbatim>\<open>
  import FWCore.ParameterSet.Config as cms
  from Geometry.CMSCommonData.cmsIdealGeometryXML_cfi import *
  XMLIdealGeometryESSource.geomXMLFiles = cms.vstring('...', ..., '...')
  \<close>
  The third statement spans lines 5 to 107 of the file; lines 6 to 106 carry one
  single-quoted string literal each, separated by commas.
\<close>

subsection \<open>The string literals of the assignment\<close>

text \<open>
  The arguments of \<^verbatim>\<open>cms.vstring(...)\<close>, in the order of the source lines 6 to 106.
  None of the literals contains a backslash or a quote, so the value of each literal is the
  text between its quotes.
\<close>

definition geomXMLFiles :: "string list" where
  "geomXMLFiles = [
     ''SLHCUpgradeSimulations/Geometry/data/longbarrel/materials.xml'',
     ''Geometry/CMSCommonData/data/rotations.xml'',
     ''Geometry/CMSCommonData/data/normal/cmsextent.xml'',
     ''Geometry/CMSCommonData/data/cms.xml'',
     ''Geometry/CMSCommonData/data/cmsMother.xml'',
     ''Geometry/CMSCommonData/data/cmsTracker.xml'',
     ''Geometry/CMSCommonData/data/caloBase.xml'',
     ''Geometry/CMSCommonData/data/cmsCalo.xml'',
     ''Geometry/CMSCommonData/data/muonBase.xml'',
     ''Geometry/CMSCommonData/data/cmsMuon.xml'',
     ''Geometry/CMSCommonData/data/mgnt.xml'',
     ''Geometry/CMSCommonData/data/beampipe.xml'',
     ''Geometry/CMSCommonData/data/cmsBeam.xml'',
     ''Geometry/CMSCommonData/data/muonMB.xml'',
     ''Geometry/CMSCommonData/data/muonMagnet.xml'',
     ''Geometry/TrackerCommonData/data/pixfwdMaterials.xml'',
     ''Geometry/TrackerCommonData/data/pixfwdCommon.xml'',
     ''Geometry/TrackerCommonData/data/pixfwdPlaq.xml'',
     ''Geometry/TrackerCommonData/data/pixfwdPlaq1x2.xml'',
     ''Geometry/TrackerCommonData/data/pixfwdPlaq1x5.xml'',
     ''Geometry/TrackerCommonData/data/pixfwdPlaq2x3.xml'',
     ''Geometry/TrackerCommonData/data/pixfwdPlaq2x4.xml'',
     ''Geometry/TrackerCommonData/data/pixfwdPlaq2x5.xml'',
     ''Geometry/TrackerCommonData/data/pixfwdPanelBase.xml'',
     ''Geometry/TrackerCommonData/data/pixfwdPanel.xml'',
     ''Geometry/TrackerCommonData/data/pixfwdBlade.xml'',
     ''Geometry/TrackerCommonData/data/pixfwdNipple.xml'',
     ''Geometry/TrackerCommonData/data/pixfwdDisk.xml'',
     ''Geometry/TrackerCommonData/data/pixfwdCylinder.xml'',
     ''SLHCUpgradeSimulations/Geometry/data/longbarrel/pixfwd.xml'',
     ''Geometry/TrackerCommonData/data/pixbarmaterial.xml'',
     ''Geometry/TrackerCommonData/data/pixbarladder.xml'',
     ''Geometry/TrackerCommonData/data/pixbarladderfull.xml'',
     ''Geometry/TrackerCommonData/data/pixbarladderhalf.xml'',
     ''Geometry/TrackerCommonData/data/pixbarlayer.xml'',
     ''SLHCUpgradeSimulations/Geometry/data/longbarrel/pixbarlayer0.xml'',
     ''SLHCUpgradeSimulations/Geometry/data/longbarrel/pixbarlayer1.xml'',
     ''SLHCUpgradeSimulations/Geometry/data/longbarrel/pixbarlayer2.xml'',
     ''SLHCUpgradeSimulations/Geometry/data/longbarrel/pixbarlayer3.xml'',
     ''SLHCUpgradeSimulations/Geometry/data/longbarrel/pixbar.xml'',
     ''SLHCUpgradeSimulations/Geometry/data/longbarrel/newtracker.xml'',
     ''Geometry/TrackerCommonData/data/trackermaterial.xml'',
     ''Geometry/TrackerCommonData/data/tracker.xml'',
     ''Geometry/TrackerCommonData/data/trackerpixbar.xml'',
     ''Geometry/TrackerCommonData/data/trackerpixfwd.xml'',
     ''Geometry/TrackerCommonData/data/trackerother.xml'',
     ''Geometry/EcalCommonData/data/eregalgo.xml'',
     ''Geometry/EcalCommonData/data/ebalgo.xml'',
     ''Geometry/EcalCommonData/data/ebcon.xml'',
     ''Geometry/EcalCommonData/data/ebrot.xml'',
     ''Geometry/EcalCommonData/data/eecon.xml'',
     ''Geometry/EcalCommonData/data/eefixed.xml'',
     ''Geometry/EcalCommonData/data/eehier.xml'',
     ''Geometry/EcalCommonData/data/eealgo.xml'',
     ''Geometry/EcalCommonData/data/escon.xml'',
     ''Geometry/EcalCommonData/data/esalgo.xml'',
     ''Geometry/EcalCommonData/data/eeF.xml'',
     ''Geometry/EcalCommonData/data/eeB.xml'',
     ''Geometry/HcalCommonData/data/hcalrotations.xml'',
     ''Geometry/HcalCommonData/data/hcalalgo.xml'',
     ''Geometry/HcalCommonData/data/hcalbarrelalgo.xml'',
     ''Geometry/HcalCommonData/data/hcalendcapalgo.xml'',
     ''Geometry/HcalCommonData/data/hcalouteralgo.xml'',
     ''Geometry/HcalCommonData/data/hcalforwardalgo.xml'',
     ''Geometry/HcalCommonData/data/hcalforwardfibre.xml'',
     ''Geometry/HcalCommonData/data/hcalforwardmaterial.xml'',
     ''Geometry/MuonCommonData/data/mbCommon.xml'',
     ''Geometry/MuonCommonData/data/mb1.xml'',
     ''Geometry/MuonCommonData/data/mb2.xml'',
     ''Geometry/MuonCommonData/data/mb3.xml'',
     ''Geometry/MuonCommonData/data/mb4.xml'',
     ''Geometry/MuonCommonData/data/muonYoke.xml'',
     ''Geometry/MuonCommonData/data/mf.xml'',
     ''Geometry/ForwardCommonData/data/forward.xml'',
     ''Geometry/ForwardCommonData/data/forwardshield.xml'',
     ''Geometry/ForwardCommonData/data/brmrotations.xml'',
     ''Geometry/ForwardCommonData/data/brm.xml'',
     ''Geometry/ForwardCommonData/data/totemMaterials.xml'',
     ''Geometry/ForwardCommonData/data/totemRotations.xml'',
     ''Geometry/ForwardCommonData/data/totemt1.xml'',
     ''Geometry/ForwardCommonData/data/totemt2.xml'',
     ''Geometry/ForwardCommonData/data/ionpump.xml'',
     ''Geometry/MuonCommonData/data/muonNumbering.xml'',
     ''SLHCUpgradeSimulations/Geometry/data/longbarrel/trackerStructureTopology.xml'',
     ''SLHCUpgradeSimulations/Geometry/data/longbarrel/trackersens.xml'',
     ''SLHCUpgradeSimulations/Geometry/data/longbarrel/trackerRecoMaterial.xml'',
     ''Geometry/EcalSimData/data/ecalsens.xml'',
     ''Geometry/HcalCommonData/data/hcalsens.xml'',
     ''Geometry/HcalSimData/data/CaloUtil.xml'',
     ''Geometry/MuonSimData/data/muonSens.xml'',
     ''Geometry/DTGeometryBuilder/data/dtSpecsFilter.xml'',
     ''Geometry/CSCGeometryBuilder/data/cscSpecsFilter.xml'',
     ''Geometry/CSCGeometryBuilder/data/cscSpecs.xml'',
     ''Geometry/RPCGeometryBuilder/data/RPCSpecs.xml'',
     ''Geometry/ForwardCommonData/data/brmsens.xml'',
     ''Geometry/HcalSimData/data/HcalProdCuts.xml'',
     ''Geometry/EcalSimData/data/EcalProdCuts.xml'',
     ''SLHCUpgradeSimulations/Geometry/data/longbarrel/trackerProdCuts.xml'',
     ''Geometry/TrackerSimData/data/trackerProdCutsBEAM.xml'',
     ''Geometry/MuonSimData/data/muonProdCuts.xml'',
     ''Geometry/CMSCommonData/data/FieldParameters.xml'']"

subsection \<open>Python values, objects and the module namespace\<close>

text \<open>
  Python objects are shared by reference, so the model keeps a store: names are bound to
  values, a value may be a reference into the heap, and a heap cell is an object, that is
  a finite map from attribute names to values. Imported modules are objects as well.
\<close>

type_synonym addr = nat

text \<open>
  Modelled from the spec: \<^verbatim>\<open>cms.vstring\<close> belongs to the external configuration
  framework and is not part of this repository; the spec describes the value it builds as
  an ordered sequence of string values. \<open>VStringClass\<close> is the callable
  \<^verbatim>\<open>cms.vstring\<close> itself, \<open>VString\<close> a value built by it, and \<open>Opaque\<close> any
  other value, which the file never inspects.
\<close>

datatype pyval =
    Ref addr
  | VString "string list"
  | VStringClass
  | Opaque nat

type_synonym pyobject = "string \<rightharpoonup> pyval"

text \<open>
  \<open>names\<close> is the global namespace of the configuration file, \<open>heap\<close> the object
  store and \<open>modules\<close> the modules that an import statement can load, each given by the
  address of its module object.
\<close>

record pystate =
  names :: "string \<rightharpoonup> pyval"
  heap :: "addr \<rightharpoonup> pyobject"
  modules :: "string \<rightharpoonup> addr"

datatype pyerror =
    ImportError string
  | NameError string
  | AttributeError string
  | TypeError

text \<open>The three statement forms that occur in the file.\<close>

datatype stmt =
    ImportAs string string
      \<comment> \<open>\<^verbatim>\<open>import M as n\<close>\<close>
  | FromImportStar string
      \<comment> \<open>\<^verbatim>\<open>from M import *\<close>\<close>
  | AssignAttrCall string string string string "string list"
      \<comment> \<open>\<^verbatim>\<open>x.a = m.f('s1', ..., 'sk')\<close>, given as \<open>x\<close>, \<open>a\<close>, \<open>m\<close>, \<open>f\<close> and the literals\<close>

definition lookup_name :: "pystate \<Rightarrow> string \<Rightarrow> pyerror + pyval" where
  "lookup_name s n = (case names s n of None \<Rightarrow> Inl (NameError n) | Some v \<Rightarrow> Inr v)"

definition get_attr :: "pystate \<Rightarrow> pyval \<Rightarrow> string \<Rightarrow> pyerror + pyval" where
  "get_attr s v a =
     (case v of
        Ref p \<Rightarrow>
          (case heap s p of
             None \<Rightarrow> Inl (AttributeError a)
           | Some ob \<Rightarrow> (case ob a of None \<Rightarrow> Inl (AttributeError a) | Some w \<Rightarrow> Inr w))
      | _ \<Rightarrow> Inl (AttributeError a))"

text \<open>
  A call builds a \<open>VString\<close> from the literals when the callee is \<^verbatim>\<open>cms.vstring\<close>.
  What any other callee would do is outside the file; the model reports it as an error.
\<close>

definition call :: "pyval \<Rightarrow> string list \<Rightarrow> pyerror + pyval" where
  "call f args = (case f of VStringClass \<Rightarrow> Inr (VString args) | _ \<Rightarrow> Inl TypeError)"

text \<open>
  Attribute assignment replaces the attribute of the referenced object and leaves every
  other attribute and every other object as they are.
\<close>

definition set_attr :: "pystate \<Rightarrow> pyval \<Rightarrow> string \<Rightarrow> pyval \<Rightarrow> pyerror + pystate" where
  "set_attr s v a w =
     (case v of
        Ref p \<Rightarrow>
          (case heap s p of
             None \<Rightarrow> Inl (AttributeError a)
           | Some ob \<Rightarrow> Inr (s\<lparr>heap := (heap s)(p \<mapsto> ob(a \<mapsto> w))\<rparr>))
      | _ \<Rightarrow> Inl (AttributeError a))"

text \<open>
  A star import binds every public name of the module (one that does not begin with an
  underscore), overriding an earlier binding of the same name.
\<close>

definition public_name :: "string \<Rightarrow> bool" where
  "public_name n = (case n of [] \<Rightarrow> True | c # _ \<Rightarrow> c \<noteq> CHR ''_'')"

definition star_bind :: "pyobject \<Rightarrow> (string \<rightharpoonup> pyval) \<Rightarrow> (string \<rightharpoonup> pyval)" where
  "star_bind ob ns =
     (\<lambda>n. if public_name n then (case ob n of Some v \<Rightarrow> Some v | None \<Rightarrow> ns n) else ns n)"

text \<open>
  The right-hand side of an assignment is evaluated before its target, as Python does.
\<close>

fun exec_stmt :: "stmt \<Rightarrow> pystate \<Rightarrow> pyerror + pystate" where
  "exec_stmt (ImportAs m n) s =
     (case modules s m of
        None \<Rightarrow> Inl (ImportError m)
      | Some p \<Rightarrow> Inr (s\<lparr>names := (names s)(n \<mapsto> Ref p)\<rparr>))"
| "exec_stmt (FromImportStar m) s =
     (case modules s m of
        None \<Rightarrow> Inl (ImportError m)
      | Some p \<Rightarrow>
          (case heap s p of
             None \<Rightarrow> Inl (ImportError m)
           | Some ob \<Rightarrow> Inr (s\<lparr>names := star_bind ob (names s)\<rparr>)))"
| "exec_stmt (AssignAttrCall x a m f args) s =
     (case lookup_name s m of
        Inl e \<Rightarrow> Inl e
      | Inr mv \<Rightarrow>
          (case get_attr s mv f of
             Inl e \<Rightarrow> Inl e
           | Inr fv \<Rightarrow>
               (case call fv args of
                  Inl e \<Rightarrow> Inl e
                | Inr w \<Rightarrow>
                    (case lookup_name s x of
                       Inl e \<Rightarrow> Inl e
                     | Inr xv \<Rightarrow> set_attr s xv a w))))"

text \<open>Statements run in order; the first error ends the run.\<close>

fun exec_stmts :: "stmt list \<Rightarrow> pystate \<Rightarrow> pyerror + pystate" where
  "exec_stmts [] s = Inr s"
| "exec_stmts (c # cs) s = (case exec_stmt c s of Inl e \<Rightarrow> Inl e | Inr s' \<Rightarrow> exec_stmts cs s')"

subsection \<open>The file\<close>

definition longbarrel_cmsIdealGeometryXML_cff :: "stmt list" where
  "longbarrel_cmsIdealGeometryXML_cff =
     [ImportAs ''FWCore.ParameterSet.Config'' ''cms'',
      FromImportStar ''Geometry.CMSCommonData.cmsIdealGeometryXML_cfi'',
      AssignAttrCall ''XMLIdealGeometryESSource'' ''geomXMLFiles'' ''cms'' ''vstring''
        geomXMLFiles]"

definition run_file :: "pystate \<Rightarrow> pyerror + pystate" where
  "run_file s = exec_stmts longbarrel_cmsIdealGeometryXML_cff s"

text \<open>Reading \<^verbatim>\<open>x.a\<close> in a state, \<open>None\<close> when the name or the attribute is missing.\<close>

definition attr_of :: "pystate \<Rightarrow> string \<Rightarrow> string \<Rightarrow> pyval option" where
  "attr_of s x a =
     (case names s x of
        Some (Ref p) \<Rightarrow> (case heap s p of None \<Rightarrow> None | Some ob \<Rightarrow> ob a)
      | _ \<Rightarrow> None)"

definition geomXMLFiles_of :: "pystate \<Rightarrow> pyval option" where
  "geomXMLFiles_of s = attr_of s ''XMLIdealGeometryESSource'' ''geomXMLFiles''"

text \<open>
  The environment the file is written for: both modules can be imported, the framework
  module provides \<^verbatim>\<open>vstring\<close>, the imported fragment provides the object
  \<^verbatim>\<open>XMLIdealGeometryESSource\<close>, and when the fragment exports a name \<^verbatim>\<open>cms\<close> of
  its own, it is the framework module again.
\<close>

definition imports_ok :: "pystate \<Rightarrow> bool" where
  "imports_ok s =
     (case modules s ''FWCore.ParameterSet.Config'' of
        None \<Rightarrow> False
      | Some pc \<Rightarrow>
          (case heap s pc of
             None \<Rightarrow> False
           | Some oc \<Rightarrow>
               oc ''vstring'' = Some VStringClass \<and>
               (case modules s ''Geometry.CMSCommonData.cmsIdealGeometryXML_cfi'' of
                  None \<Rightarrow> False
                | Some pi \<Rightarrow>
                    (case heap s pi of
                       None \<Rightarrow> False
                     | Some oi \<Rightarrow>
                         (oi ''cms'' = None \<or> oi ''cms'' = Some (Ref pc)) \<and>
                         (case oi ''XMLIdealGeometryESSource'' of
                            Some (Ref px) \<Rightarrow> heap s px \<noteq> None
                          | _ \<Rightarrow> False)))))"

text \<open>Whether a statement assigns to the attribute \<open>a\<close> of the name \<open>x\<close>.\<close>

fun assigns_to :: "string \<Rightarrow> string \<Rightarrow> stmt \<Rightarrow> bool" where
  "assigns_to x a (AssignAttrCall y b m f args) = (y = x \<and> b = a)"
| "assigns_to x a (ImportAs m n) = False"
| "assigns_to x a (FromImportStar m) = False"

subsection \<open>Path predicates\<close>

definition starts_with :: "string \<Rightarrow> string \<Rightarrow> bool" where
  "starts_with s pre = (take (length pre) s = pre)"

definition ends_with :: "string \<Rightarrow> string \<Rightarrow> bool" where
  "ends_with s suf = (length suf \<le> length s \<and> drop (length s - length suf) s = suf)"

text \<open>
  Characters that a path may not contain: NUL, the ASCII whitespace characters (tab, line
  feed, vertical tab, form feed, carriage return, space), every other control character, and
  everything beyond visible ASCII.
\<close>

definition invalid_path_char :: "char \<Rightarrow> bool" where
  "invalid_path_char c = ((of_char c :: nat) < 33 \<or> 126 < (of_char c :: nat))"

definition longbarrel_prefix :: string where
  "longbarrel_prefix = ''SLHCUpgradeSimulations/Geometry/data/longbarrel/''"

text \<open>The value stored under attribute \<open>b\<close> of the object at address \<open>p\<close>.\<close>

definition field_at :: "pystate \<Rightarrow> addr \<Rightarrow> string \<Rightarrow> pyval option" where
  "field_at s p b = (case heap s p of None \<Rightarrow> None | Some ob \<Rightarrow> ob b)"

text \<open>
  A sample environment, for runs on concrete input: the framework module at address 0, the
  imported fragment at address 1, and at address 2 the object
  \<^verbatim>\<open>XMLIdealGeometryESSource\<close> whose default \<^verbatim>\<open>geomXMLFiles\<close> is \<open>d\<close>.
\<close>

definition example_env :: "string list \<Rightarrow> pystate" where
  "example_env d =
     \<lparr>names = Map.empty,
      heap = [0 \<mapsto> [''vstring'' \<mapsto> VStringClass],
              1 \<mapsto> [''cms'' \<mapsto> Ref 0, ''XMLIdealGeometryESSource'' \<mapsto> Ref 2],
              2 \<mapsto> [''geomXMLFiles'' \<mapsto> VString d, ''rootNodeName'' \<mapsto> Opaque 0]],
      modules = [''FWCore.ParameterSet.Config'' \<mapsto> 0,
                 ''Geometry.CMSCommonData.cmsIdealGeometryXML_cfi'' \<mapsto> 1]\<rparr>"

subsection \<open>Kinds of entries\<close>

text \<open>
  The file itself does not classify its entries. The kinds that the stated load order
  speaks of are read off the file name, the part of the path after its last slash:
  materials (\<^verbatim>\<open>material\<close>, \<^verbatim>\<open>Material\<close>), rotations (\<^verbatim>\<open>rotations\<close>,
  \<^verbatim>\<open>Rotations\<close>), sensitive-detector overlays (\<^verbatim>\<open>sens\<close>, \<^verbatim>\<open>Sens\<close>) and
  production-cut overlays (\<^verbatim>\<open>ProdCuts\<close>). A further kind holds the files that carry
  parameters and no volumes: specifications (\<^verbatim>\<open>Specs\<close>), utilities (\<^verbatim>\<open>Util\<close>),
  field parameters (\<^verbatim>\<open>Parameters\<close>), numbering schemes (\<^verbatim>\<open>Numbering\<close>) and
  structure topology (\<^verbatim>\<open>Topology\<close>). A detector-volume entry is an entry of none of
  these five kinds.
\<close>

definition basename :: "string \<Rightarrow> string" where
  "basename p = foldl (\<lambda>b c. if c = CHR ''/'' then [] else b @ [c]) [] p"

fun contains :: "string \<Rightarrow> string \<Rightarrow> bool" where
  "contains [] sub = (sub = [])"
| "contains (c # cs) sub = (starts_with (c # cs) sub \<or> contains cs sub)"

definition is_materials_entry :: "string \<Rightarrow> bool" where
  "is_materials_entry p =
     (contains (basename p) ''material'' \<or> contains (basename p) ''Material'')"

definition is_rotations_entry :: "string \<Rightarrow> bool" where
  "is_rotations_entry p =
     (contains (basename p) ''rotations'' \<or> contains (basename p) ''Rotations'')"

definition is_sens_entry :: "string \<Rightarrow> bool" where
  "is_sens_entry p = (contains (basename p) ''sens'' \<or> contains (basename p) ''Sens'')"

definition is_prodcuts_entry :: "string \<Rightarrow> bool" where
  "is_prodcuts_entry p = contains (basename p) ''ProdCuts''"

definition is_parameter_entry :: "string \<Rightarrow> bool" where
  "is_parameter_entry p =
     (contains (basename p) ''Specs'' \<or> contains (basename p) ''Util'' \<or>
      contains (basename p) ''Parameters'' \<or> contains (basename p) ''Numbering'' \<or>
      contains (basename p) ''Topology'')"

definition is_volume_entry :: "string \<Rightarrow> bool" where
  "is_volume_entry p =
     (\<not> is_materials_entry p \<and> \<not> is_rotations_entry p \<and>
      \<not> is_sens_entry p \<and> \<not> is_prodcuts_entry p \<and> \<not> is_parameter_entry p)"

text \<open>The indices, counted from \<open>n\<close>, of the entries that satisfy \<open>P\<close>.\<close>

fun positions_from :: "nat \<Rightarrow> ('a \<Rightarrow> bool) \<Rightarrow> 'a list \<Rightarrow> nat list" where
  "positions_from n P [] = []"
| "positions_from n P (x # xs) =
     (if P x then n # positions_from (n + 1) P xs else positions_from (n + 1) P xs)"

text \<open>Every entry of kind \<open>P\<close> stands before every entry of kind \<open>Q\<close>.\<close>

definition all_before :: "('a \<Rightarrow> bool) \<Rightarrow> ('a \<Rightarrow> bool) \<Rightarrow> 'a list \<Rightarrow> bool" where
  "all_before P Q xs =
     list_all (\<lambda>i. list_all (\<lambda>j. i < j) (positions_from 0 Q xs)) (positions_from 0 P xs)"

text \<open>The load order as stated: materials and rotations, then volumes, then the overlays.\<close>

definition dependency_order :: "string list \<Rightarrow> bool" where
  "dependency_order xs =
     (all_before is_materials_entry is_volume_entry xs \<and>
      all_before is_rotations_entry is_volume_entry xs \<and>
      all_before is_volume_entry is_sens_entry xs \<and>
      all_before is_volume_entry is_prodcuts_entry xs)"

subsection \<open>Interchange formats\<close>

text \<open>
  Modelled from the spec: the repository holds no serializer. The spec names
  newline-delimited text and a JSON array of strings as interchangeable representations of
  the list; the two codecs below are the plain forms of these. \<open>to_lines\<close> ends every
  entry with a line feed, and \<open>from_lines\<close> splits at line feeds.
\<close>

definition to_lines :: "string list \<Rightarrow> string" where
  "to_lines xs = concat (map (\<lambda>p. p @ [CHR 0x0A]) xs)"

fun from_lines_run :: "string \<Rightarrow> string \<Rightarrow> string list" where
  "from_lines_run cur [] = (if cur = [] then [] else [rev cur])"
| "from_lines_run cur (c # cs) =
     (if c = CHR 0x0A then rev cur # from_lines_run [] cs else from_lines_run (c # cur) cs)"

definition from_lines :: "string \<Rightarrow> string list" where
  "from_lines s = from_lines_run [] s"

text \<open>
  Modelled from the spec: a JSON array of strings in compact form, without white space
  between the tokens. A string is written between double quotes (\<open>0x22\<close>), with a
  backslash (\<open>0x5C\<close>) before every double quote and every backslash in it. Escapes for
  control characters are not modelled; the entries of the list hold none.
\<close>

fun json_escape :: "string \<Rightarrow> string" where
  "json_escape [] = []"
| "json_escape (c # cs) =
     (if c = CHR 0x22 \<or> c = CHR 0x5C then CHR 0x5C # c # json_escape cs
      else c # json_escape cs)"

definition json_string :: "string \<Rightarrow> string" where
  "json_string s = CHR 0x22 # json_escape s @ [CHR 0x22]"

fun json_items :: "string list \<Rightarrow> string" where
  "json_items [] = []"
| "json_items [x] = json_string x"
| "json_items (x # y # ys) = json_string x @ CHR '','' # json_items (y # ys)"

definition to_json :: "string list \<Rightarrow> string" where
  "to_json xs = CHR ''['' # json_items xs @ [CHR '']'']"

text \<open>
  The reader is a state machine over the characters; \<open>cur\<close> holds the string being read,
  reversed, and \<open>acc\<close> the strings read so far, reversed. Any other input is rejected.
\<close>

datatype jstate = JStart | JOpen | JInStr | JEsc | JAfterStr | JAfterComma | JEnd

fun from_json_run :: "jstate \<Rightarrow> string \<Rightarrow> string list \<Rightarrow> string \<Rightarrow> string list option" where
  "from_json_run st cur acc [] = (if st = JEnd then Some (rev acc) else None)"
| "from_json_run st cur acc (c # cs) =
     (case st of
        JStart \<Rightarrow> if c = CHR ''['' then from_json_run JOpen [] acc cs else None
      | JOpen \<Rightarrow>
          if c = CHR '']'' then from_json_run JEnd [] acc cs
          else if c = CHR 0x22 then from_json_run JInStr [] acc cs
          else None
      | JInStr \<Rightarrow>
          if c = CHR 0x22 then from_json_run JAfterStr [] (rev cur # acc) cs
          else if c = CHR 0x5C then from_json_run JEsc cur acc cs
          else from_json_run JInStr (c # cur) acc cs
      | JEsc \<Rightarrow>
          if c = CHR 0x22 \<or> c = CHR 0x5C then from_json_run JInStr (c # cur) acc cs
          else None
      | JAfterStr \<Rightarrow>
          if c = CHR '','' then from_json_run JAfterComma [] acc cs
          else if c = CHR '']'' then from_json_run JEnd [] acc cs
          else None
      | JAfterComma \<Rightarrow> if c = CHR 0x22 then from_json_run JInStr [] acc cs else None
      | JEnd \<Rightarrow> None)"

definition from_json :: "string \<Rightarrow> string list option" where
  "from_json s = from_json_run JStart [] [] s"

section \<open>Properties\<close>

subsection \<open>Facts about the literals, by evaluation\<close>

lemma geomXMLFiles_length: "length geomXMLFiles = 101"
  by (simp add: geomXMLFiles_def)

text \<open>The last sixteen characters already tell the entries apart.\<close>

lemma geomXMLFiles_keys_distinct:
  "distinct (map (\<lambda>p. drop (length p - 16) p) geomXMLFiles)"
  by (simp add: geomXMLFiles_def)

lemma geomXMLFiles_distinct: "distinct geomXMLFiles"
  using geomXMLFiles_keys_distinct by (simp add: distinct_map)

lemma entries_wellformed:
  "list_all
     (\<lambda>p. p \<noteq> [] \<and> \<not> starts_with p ''/'' \<and> list_all (\<lambda>c. \<not> invalid_path_char c) p)
     geomXMLFiles"
  by (simp add: geomXMLFiles_def starts_with_def invalid_path_char_def)

lemma entries_prefixed:
  "list_all (\<lambda>p. starts_with p ''Geometry/'' \<or> starts_with p longbarrel_prefix) geomXMLFiles"
  by (simp add: geomXMLFiles_def starts_with_def longbarrel_prefix_def)

lemma longbarrel_entries:
  "filter (\<lambda>p. starts_with p longbarrel_prefix) geomXMLFiles =
     map (\<lambda>f. longbarrel_prefix @ f)
       [''materials.xml'', ''pixfwd.xml'', ''pixbarlayer0.xml'', ''pixbarlayer1.xml'',
        ''pixbarlayer2.xml'', ''pixbarlayer3.xml'', ''pixbar.xml'', ''newtracker.xml'',
        ''trackerStructureTopology.xml'', ''trackersens.xml'', ''trackerRecoMaterial.xml'',
        ''trackerProdCuts.xml'']"
  by (simp add: geomXMLFiles_def starts_with_def longbarrel_prefix_def)

lemma entry_0:
  "geomXMLFiles ! 0 = ''SLHCUpgradeSimulations/Geometry/data/longbarrel/materials.xml''"
  and entry_1: "geomXMLFiles ! 1 = ''Geometry/CMSCommonData/data/rotations.xml''"
  and entry_3: "geomXMLFiles ! 3 = ''Geometry/CMSCommonData/data/cms.xml''"
  and entry_15: "geomXMLFiles ! 15 = ''Geometry/TrackerCommonData/data/pixfwdMaterials.xml''"
  and entry_58: "geomXMLFiles ! 58 = ''Geometry/HcalCommonData/data/hcalrotations.xml''"
  and entry_84:
    "geomXMLFiles ! 84 = ''SLHCUpgradeSimulations/Geometry/data/longbarrel/trackersens.xml''"
  and entry_95: "geomXMLFiles ! 95 = ''Geometry/HcalSimData/data/HcalProdCuts.xml''"
  and entry_100: "geomXMLFiles ! 100 = ''Geometry/CMSCommonData/data/FieldParameters.xml''"
  by (simp_all add: geomXMLFiles_def)

lemma cms_xml_entry: "''Geometry/CMSCommonData/data/cms.xml'' \<in> set geomXMLFiles"
proof -
  have "geomXMLFiles ! 3 \<in> set geomXMLFiles"
    by (rule nth_mem) (simp add: geomXMLFiles_length)
  then show ?thesis by (simp only: entry_3)
qed

lemmas kind_defs = is_materials_entry_def is_rotations_entry_def is_sens_entry_def
  is_prodcuts_entry_def is_parameter_entry_def is_volume_entry_def basename_def
  starts_with_def

lemma entry_kinds:
  "is_materials_entry ''SLHCUpgradeSimulations/Geometry/data/longbarrel/materials.xml''"
  "is_rotations_entry ''Geometry/CMSCommonData/data/rotations.xml''"
  "is_volume_entry ''Geometry/CMSCommonData/data/cms.xml''"
  "is_materials_entry ''Geometry/TrackerCommonData/data/pixfwdMaterials.xml''"
  "is_sens_entry ''SLHCUpgradeSimulations/Geometry/data/longbarrel/trackersens.xml''"
  "is_prodcuts_entry ''Geometry/HcalSimData/data/HcalProdCuts.xml''"
  "is_rotations_entry ''Geometry/HcalCommonData/data/hcalrotations.xml''"
  by (simp_all add: kind_defs)

lemma sens_positions: "positions_from 0 is_sens_entry geomXMLFiles = [84, 86, 87, 89, 94]"
  by (simp add: geomXMLFiles_def is_sens_entry_def basename_def starts_with_def)

lemma prodcuts_positions:
  "positions_from 0 is_prodcuts_entry geomXMLFiles = [95, 96, 97, 98, 99]"
  by (simp add: geomXMLFiles_def is_prodcuts_entry_def basename_def starts_with_def)

lemma materials_positions:
  "positions_from 0 is_materials_entry geomXMLFiles = [0, 15, 30, 41, 65, 77, 85]"
  by (simp add: geomXMLFiles_def is_materials_entry_def basename_def starts_with_def)

lemma rotations_positions:
  "positions_from 0 is_rotations_entry geomXMLFiles = [1, 58, 75, 78]"
  by (simp add: geomXMLFiles_def is_rotations_entry_def basename_def starts_with_def)

text \<open>From the first sens overlay on, at index 84, no entry is a detector-volume entry.\<close>

lemma no_volume_from_84: "list_all (\<lambda>p. \<not> is_volume_entry p) (drop 84 geomXMLFiles)"
  by (simp add: geomXMLFiles_def kind_defs)

subsection \<open>Positions and precedence\<close>

lemma positions_from_iff:
  "k \<in> set (positions_from n P xs) \<longleftrightarrow> (\<exists>i<length xs. k = n + i \<and> P (xs ! i))"
proof (induction xs arbitrary: n)
  case Nil
  show ?case by simp
next
  case (Cons x xs)
  have "(\<exists>i<length (x # xs). k = n + i \<and> P ((x # xs) ! i)) \<longleftrightarrow>
          (k = n \<and> P x) \<or> (\<exists>i<length xs. k = n + 1 + i \<and> P (xs ! i))"
    by (auto simp: less_Suc_eq_0_disj)
  with Cons.IH [of "n + 1"] show ?case by auto
qed

lemma all_before_iff:
  "all_before P Q xs \<longleftrightarrow>
     (\<forall>i<length xs. \<forall>j<length xs. P (xs ! i) \<and> Q (xs ! j) \<longrightarrow> i < j)"
proof -
  have "all_before P Q xs \<longleftrightarrow>
          (\<forall>i\<in>set (positions_from 0 P xs). \<forall>j\<in>set (positions_from 0 Q xs). i < j)"
    by (simp add: all_before_def list_all_iff)
  also have "\<dots> \<longleftrightarrow>
          (\<forall>i<length xs. \<forall>j<length xs. P (xs ! i) \<and> Q (xs ! j) \<longrightarrow> i < j)"
    by (simp add: positions_from_iff Ball_def) blast
  finally show ?thesis .
qed

lemma volume_index_bound:
  assumes "i < length geomXMLFiles" and "is_volume_entry (geomXMLFiles ! i)"
  shows "i < 84"
proof (rule ccontr)
  assume "\<not> i < 84"
  then have "geomXMLFiles ! i = drop 84 geomXMLFiles ! (i - 84)"
    and "i - 84 < length (drop 84 geomXMLFiles)"
    using assms(1) by simp_all
  then have "geomXMLFiles ! i \<in> set (drop 84 geomXMLFiles)"
    by (metis nth_mem)
  with no_volume_from_84 have "\<not> is_volume_entry (geomXMLFiles ! i)"
    by (simp add: list_all_iff)
  with assms(2) show False by simp
qed

lemma overlay_index_bound:
  assumes "j < length geomXMLFiles"
    and "is_sens_entry (geomXMLFiles ! j) \<or> is_prodcuts_entry (geomXMLFiles ! j)"
  shows "84 \<le> j"
proof -
  from assms have "j \<in> set (positions_from 0 is_sens_entry geomXMLFiles) \<or>
      j \<in> set (positions_from 0 is_prodcuts_entry geomXMLFiles)"
    by (auto simp: positions_from_iff)
  then show ?thesis
    unfolding sens_positions prodcuts_positions by auto
qed

lemma volumes_before_overlays:
  "all_before is_volume_entry is_sens_entry geomXMLFiles"
  "all_before is_volume_entry is_prodcuts_entry geomXMLFiles"
  unfolding all_before_iff
  using volume_index_bound overlay_index_bound by fastforce+

subsection \<open>Running the statements\<close>

lemma exec_ImportAs_Inr:
  assumes "exec_stmt (ImportAs m n) s = Inr t"
  shows "\<exists>p. modules s m = Some p \<and> t = s\<lparr>names := (names s)(n \<mapsto> Ref p)\<rparr>"
  using assms by (cases "modules s m") auto

lemma exec_FromImportStar_Inr:
  assumes "exec_stmt (FromImportStar m) s = Inr t"
  shows "\<exists>p ob. modules s m = Some p \<and> heap s p = Some ob \<and>
           t = s\<lparr>names := star_bind ob (names s)\<rparr>"
  using assms by (auto split: option.splits)

lemma get_attr_Inr:
  assumes "get_attr s v a = Inr w"
  shows "\<exists>p ob. v = Ref p \<and> heap s p = Some ob \<and> ob a = Some w"
  using assms by (auto simp: get_attr_def split: pyval.splits option.splits)

lemma call_Inr:
  assumes "call f args = Inr w"
  shows "f = VStringClass \<and> w = VString args"
  using assms by (auto simp: call_def split: pyval.splits)

lemma set_attr_Inr:
  assumes "set_attr s v a w = Inr t"
  shows "\<exists>p ob. v = Ref p \<and> heap s p = Some ob \<and> t = s\<lparr>heap := (heap s)(p \<mapsto> ob(a \<mapsto> w))\<rparr>"
  using assms by (auto simp: set_attr_def split: pyval.splits option.splits)

lemma lookup_name_Inr:
  assumes "lookup_name s n = Inr v"
  shows "names s n = Some v"
  using assms by (auto simp: lookup_name_def split: option.splits)

lemma exec_AssignAttrCall_Inr:
  assumes "exec_stmt (AssignAttrCall x a m f args) s = Inr t"
  shows "\<exists>pm om px ox.
           names s m = Some (Ref pm) \<and> heap s pm = Some om \<and> om f = Some VStringClass \<and>
           names s x = Some (Ref px) \<and> heap s px = Some ox \<and>
           t = s\<lparr>heap := (heap s)(px \<mapsto> ox(a \<mapsto> VString args))\<rparr>"
proof -
  from assms obtain mv fv w xv where
    1: "lookup_name s m = Inr mv" and 2: "get_attr s mv f = Inr fv" and
    3: "call fv args = Inr w" and 4: "lookup_name s x = Inr xv" and
    5: "set_attr s xv a w = Inr t"
    by (auto split: sum.splits)
  from 3 have fv: "fv = VStringClass" and w: "w = VString args"
    using call_Inr by blast+
  from 2 obtain pm om where mv: "mv = Ref pm" and om: "heap s pm = Some om" "om f = Some fv"
    using get_attr_Inr by blast
  from 5 obtain px ox where xv: "xv = Ref px" and ox: "heap s px = Some ox"
    and t: "t = s\<lparr>heap := (heap s)(px \<mapsto> ox(a \<mapsto> w))\<rparr>"
    using set_attr_Inr by blast
  from 1 mv have "names s m = Some (Ref pm)" by (simp add: lookup_name_Inr)
  moreover from 4 xv have "names s x = Some (Ref px)" by (simp add: lookup_name_Inr)
  ultimately show ?thesis using om ox t fv w by blast
qed


lemma exec_stmts_Cons_Inr:
  assumes "exec_stmts (c # cs) s = Inr t"
  shows "\<exists>s'. exec_stmt c s = Inr s' \<and> exec_stmts cs s' = Inr t"
  using assms by (cases "exec_stmt c s") auto


lemma exec_three_Inr:
  assumes "exec_stmts [ImportAs mc c, FromImportStar mi, AssignAttrCall x a c f args] s = Inr t"
  shows "\<exists>pc pi oi pm om px ox.
           modules s mc = Some pc \<and> modules s mi = Some pi \<and> heap s pi = Some oi \<and>
           star_bind oi ((names s)(c \<mapsto> Ref pc)) c = Some (Ref pm) \<and>
           heap s pm = Some om \<and> om f = Some VStringClass \<and>
           star_bind oi ((names s)(c \<mapsto> Ref pc)) x = Some (Ref px) \<and>
           heap s px = Some ox \<and>
           t = s\<lparr>names := star_bind oi ((names s)(c \<mapsto> Ref pc)),
                 heap := (heap s)(px \<mapsto> ox(a \<mapsto> VString args))\<rparr>"
proof -
  from exec_stmts_Cons_Inr [OF assms] obtain s1 where
    e1: "exec_stmt (ImportAs mc c) s = Inr s1" and
    r1: "exec_stmts [FromImportStar mi, AssignAttrCall x a c f args] s1 = Inr t"
    by blast
  from exec_stmts_Cons_Inr [OF r1] obtain s2 where
    e2: "exec_stmt (FromImportStar mi) s1 = Inr s2" and
    r2: "exec_stmts [AssignAttrCall x a c f args] s2 = Inr t"
    by blast
  from exec_stmts_Cons_Inr [OF r2] have
    e3: "exec_stmt (AssignAttrCall x a c f args) s2 = Inr t"
    by auto
  from exec_ImportAs_Inr [OF e1] obtain pc where
    pc: "modules s mc = Some pc" and
    s1: "s1 = s\<lparr>names := (names s)(c \<mapsto> Ref pc)\<rparr>"
    by blast
  from exec_FromImportStar_Inr [OF e2] obtain pi oi where
    pi: "modules s1 mi = Some pi" and
    oi: "heap s1 pi = Some oi" and
    s2: "s2 = s1\<lparr>names := star_bind oi (names s1)\<rparr>"
    by blast
  from exec_AssignAttrCall_Inr [OF e3] obtain pm om px ox where
    a: "names s2 c = Some (Ref pm)" "heap s2 pm = Some om" "om f = Some VStringClass"
       "names s2 x = Some (Ref px)" "heap s2 px = Some ox" and
    t: "t = s2\<lparr>heap := (heap s2)(px \<mapsto> ox(a \<mapsto> VString args))\<rparr>"
    by blast
  have n2: "names s2 = star_bind oi ((names s)(c \<mapsto> Ref pc))" and h2: "heap s2 = heap s"
    and m1: "modules s1 = modules s" and h1: "heap s1 = heap s"
    by (simp_all add: s1 s2)
  have "t = s\<lparr>names := star_bind oi ((names s)(c \<mapsto> Ref pc)),
                 heap := (heap s)(px \<mapsto> ox(a \<mapsto> VString args))\<rparr>"
    by (simp add: t s2 s1)
  with pc pi oi a show ?thesis
    unfolding n2 h2 m1 h1 by blast
qed


lemma exec_three_attr:
  assumes "exec_stmts [ImportAs mc c, FromImportStar mi, AssignAttrCall x a c f args] s = Inr t"
  shows "attr_of t x a = Some (VString args)"
proof -
  from exec_three_Inr [OF assms] obtain ns px ox where
    "names t = ns" "ns x = Some (Ref px)"
    "heap t = (heap s)(px \<mapsto> ox(a \<mapsto> VString args))"
    by force
  then show ?thesis
    by (simp add: attr_of_def)
qed

lemma exec_three_frame:
  assumes "exec_stmts [ImportAs mc c, FromImportStar mi, AssignAttrCall x a c f args] s = Inr t"
    and "field_at t p b \<noteq> field_at s p b"
  shows "names t x = Some (Ref p) \<and> b = a"
proof -
  from exec_three_Inr [OF assms(1)] obtain px ox where
    n: "names t x = Some (Ref px)" and o: "heap s px = Some ox" and
    h: "heap t = (heap s)(px \<mapsto> ox(a \<mapsto> VString args))"
    by force
  from assms(2) h o have "p = px \<and> b = a"
    by (auto simp: field_at_def split: if_splits)
  with n show ?thesis by simp
qed

lemma exec_three_shape:
  assumes "exec_stmts [ImportAs mc c, FromImportStar mi, AssignAttrCall x a c f args] s = Inr t"
  shows "modules t = modules s \<and> dom (heap t) = dom (heap s) \<and>
         (\<exists>pc pi oi. modules s mc = Some pc \<and> modules s mi = Some pi \<and> heap s pi = Some oi \<and>
            names t = star_bind oi ((names s)(c \<mapsto> Ref pc)))"
proof -
  from exec_three_Inr [OF assms] obtain pc pi oi px ox where
    f: "modules s mc = Some pc" "modules s mi = Some pi" "heap s pi = Some oi"
       "heap s px = Some ox" and
    t: "t = s\<lparr>names := star_bind oi ((names s)(c \<mapsto> Ref pc)),
                 heap := (heap s)(px \<mapsto> ox(a \<mapsto> VString args))\<rparr>"
    by blast
  from f(4) have "insert px (dom (heap s)) = dom (heap s)" by auto
  with f t show ?thesis by simp
qed

lemma run_file_result:
  assumes "run_file s = Inr t"
  shows "geomXMLFiles_of t = Some (VString geomXMLFiles)"
  using assms unfolding run_file_def longbarrel_cmsIdealGeometryXML_cff_def geomXMLFiles_of_def
  by (rule exec_three_attr)


lemma exec_three_total:
  assumes mc: "modules s mc = Some pc" and oc: "heap s pc = Some oc"
    and f: "oc f = Some VStringClass"
    and mi: "modules s mi = Some pi" and oi: "heap s pi = Some oi"
    and c: "oi c = None \<or> oi c = Some (Ref pc)"
    and x: "oi x = Some (Ref px)" and ox: "heap s px = Some ox"
    and pub: "public_name c" "public_name x"
  shows "\<exists>t. exec_stmts [ImportAs mc c, FromImportStar mi, AssignAttrCall x a c f args] s = Inr t"
proof -
  let ?s1 = "s\<lparr>names := (names s)(c \<mapsto> Ref pc)\<rparr>"
  let ?s2 = "?s1\<lparr>names := star_bind oi (names ?s1)\<rparr>"
  have e1: "exec_stmt (ImportAs mc c) s = Inr ?s1"
    by (simp add: mc)
  have e2: "exec_stmt (FromImportStar mi) ?s1 = Inr ?s2"
    by (simp add: mi oi)
  from c pub(1) have nc: "names ?s2 c = Some (Ref pc)"
    by (auto simp: star_bind_def)
  from x pub(2) have nx: "names ?s2 x = Some (Ref px)"
    by (simp add: star_bind_def)
  have "exec_stmt (AssignAttrCall x a c f args) ?s2 =
          Inr (?s2\<lparr>heap := (heap ?s2)(px \<mapsto> ox(a \<mapsto> VString args))\<rparr>)"
    using nc nx oc f ox
    by (simp add: lookup_name_def get_attr_def call_def set_attr_def)
  with e1 e2 show ?thesis by simp
qed

lemma imports_okD:
  assumes "imports_ok s"
  shows "\<exists>pc oc pi oi px ox.
           modules s ''FWCore.ParameterSet.Config'' = Some pc \<and> heap s pc = Some oc \<and>
           oc ''vstring'' = Some VStringClass \<and>
           modules s ''Geometry.CMSCommonData.cmsIdealGeometryXML_cfi'' = Some pi \<and>
           heap s pi = Some oi \<and> (oi ''cms'' = None \<or> oi ''cms'' = Some (Ref pc)) \<and>
           oi ''XMLIdealGeometryESSource'' = Some (Ref px) \<and> heap s px = Some ox"
  using assms unfolding imports_ok_def
  by (simp split: option.splits pyval.splits)

lemma public_names: "public_name ''cms''" "public_name ''XMLIdealGeometryESSource''"
  by (simp_all add: public_name_def)

lemma run_file_total:
  assumes "imports_ok s"
  shows "\<exists>t. run_file s = Inr t"
proof -
  from imports_okD [OF assms] obtain pc oc pi oi px ox where
    h: "modules s ''FWCore.ParameterSet.Config'' = Some pc" "heap s pc = Some oc"
       "oc ''vstring'' = Some VStringClass"
       "modules s ''Geometry.CMSCommonData.cmsIdealGeometryXML_cfi'' = Some pi"
       "heap s pi = Some oi" "oi ''cms'' = None \<or> oi ''cms'' = Some (Ref pc)"
       "oi ''XMLIdealGeometryESSource'' = Some (Ref px)" "heap s px = Some ox"
    by blast
  show ?thesis
    unfolding run_file_def longbarrel_cmsIdealGeometryXML_cff_def
    by (rule exec_three_total [OF h public_names])
qed

lemma example_env_ok: "imports_ok (example_env d)"
  by (simp add: imports_ok_def example_env_def)

subsection \<open>The codecs invert each other\<close>

lemma from_lines_run_entry:
  assumes "CHR 0x0A \<notin> set p"
  shows "from_lines_run cur (p @ CHR 0x0A # rest) = (rev cur @ p) # from_lines_run [] rest"
  using assms by (induction p arbitrary: cur) auto

lemma from_lines_to_lines:
  assumes "\<forall>p\<in>set xs. CHR 0x0A \<notin> set p"
  shows "from_lines (to_lines xs) = xs"
  using assms
proof (induction xs)
  case Nil
  then show ?case by (simp add: from_lines_def to_lines_def)
next
  case (Cons p xs)
  then have "from_lines_run [] (p @ CHR 0x0A # to_lines xs) = p # from_lines_run [] (to_lines xs)"
    by (simp add: from_lines_run_entry)
  with Cons show ?case by (simp add: from_lines_def to_lines_def)
qed

lemma from_json_run_escape:
  "from_json_run JInStr cur acc (json_escape s @ rest) =
     from_json_run JInStr (rev s @ cur) acc rest"
  by (induction s arbitrary: cur) auto

lemma from_json_run_string:
  "from_json_run JInStr [] acc (json_escape s @ CHR 0x22 # rest) =
     from_json_run JAfterStr [] (s # acc) rest"
  by (simp add: from_json_run_escape)

lemma from_json_run_items:
  "from_json_run JInStr [] acc (tl (json_items (x # xs)) @ [CHR '']'']) =
     Some (rev acc @ x # xs)"
proof (induction xs arbitrary: x acc)
  case Nil
  show ?case by (simp add: json_string_def from_json_run_string)
next
  case (Cons y ys)
  have "from_json_run JInStr [] acc (tl (json_items (x # y # ys)) @ [CHR '']'']) =
          from_json_run JAfterStr [] (x # acc) (CHR '','' # json_items (y # ys) @ [CHR '']''])"
    by (simp add: json_string_def from_json_run_string)
  also have "\<dots> = from_json_run JInStr [] (x # acc) (tl (json_items (y # ys)) @ [CHR '']''])"
    by (cases ys) (simp_all add: json_string_def)
  also have "\<dots> = Some (rev (x # acc) @ y # ys)"
    by (rule Cons.IH)
  finally show ?case by simp
qed

lemma from_json_to_json: "from_json (to_json xs) = Some xs"
proof (cases xs)
  case Nil
  then show ?thesis by (simp add: from_json_def to_json_def)
next
  case (Cons x ys)
  obtain r where r: "json_items (x # ys) = CHR 0x22 # r"
    by (cases ys) (simp_all add: json_string_def)
  then have "from_json (to_json (x # ys)) =
               from_json_run JInStr [] [] (tl (json_items (x # ys)) @ [CHR '']''])"
    by (simp add: from_json_def to_json_def)
  with Cons show ?thesis by (simp add: from_json_run_items)
qed

lemma entries_without_newline: "\<forall>p\<in>set geomXMLFiles. CHR 0x0A \<notin> set p"
proof
  fix p assume "p \<in> set geomXMLFiles"
  with entries_wellformed have "\<forall>c\<in>set p. \<not> invalid_path_char c"
    by (simp add: list_all_iff)
  moreover have "invalid_path_char (CHR 0x0A)"
    by (simp add: invalid_path_char_def)
  ultimately show "CHR 0x0A \<notin> set p" by blast
qed

section \<open>The claims\<close>

text \<open>
  Claim C1. In an environment where both imports succeed, running the file ends without an
  error and leaves, as the value of \<^verbatim>\<open>XMLIdealGeometryESSource.geomXMLFiles\<close>, a
  string vector of the same length as the list of literals whose element at every index is
  the literal at that index: the literals, in their order.
\<close>

theorem run_file_assigns_literals:
  assumes "imports_ok s"
  shows "\<exists>t ys. run_file s = Inr t \<and> geomXMLFiles_of t = Some (VString ys) \<and>
           length ys = length geomXMLFiles \<and> (\<forall>i<length ys. ys ! i = geomXMLFiles ! i)"
proof -
  from run_file_total [OF assms] obtain t where t: "run_file s = Inr t" ..
  then have "geomXMLFiles_of t = Some (VString geomXMLFiles)"
    by (rule run_file_result)
  with t show ?thesis by blast
qed

theorem run_file_assigns_literals_witness:
  "imports_ok (example_env []) \<and>
   (\<exists>t ys. run_file (example_env []) = Inr t \<and> geomXMLFiles_of t = Some (VString ys) \<and>
      length ys = length geomXMLFiles \<and> (\<forall>i<length ys. ys ! i = geomXMLFiles ! i))"
  by (rule conjI [OF example_env_ok run_file_assigns_literals [OF example_env_ok]])

text \<open>
  Claim C2. In an environment where both imports succeed, the run ends without an error and
  the list that it leaves in \<^verbatim>\<open>XMLIdealGeometryESSource.geomXMLFiles\<close> has exactly
  101 entries, as many as the assignment has string literals, one for each of the source
  lines 6 to 106; the statement that assigns it is the third of the file.
\<close>

theorem assigned_list_has_101_entries:
  assumes "imports_ok s"
  shows "\<exists>t ys. run_file s = Inr t \<and> geomXMLFiles_of t = Some (VString ys) \<and>
           length ys = 101 \<and> length ys = length geomXMLFiles \<and>
           longbarrel_cmsIdealGeometryXML_cff ! 2 =
             AssignAttrCall ''XMLIdealGeometryESSource'' ''geomXMLFiles'' ''cms'' ''vstring''
               geomXMLFiles"
proof -
  from run_file_total [OF assms] obtain t where t: "run_file s = Inr t" ..
  then have v: "geomXMLFiles_of t = Some (VString geomXMLFiles)"
    by (rule run_file_result)
  have "longbarrel_cmsIdealGeometryXML_cff ! 2 =
          AssignAttrCall ''XMLIdealGeometryESSource'' ''geomXMLFiles'' ''cms'' ''vstring''
            geomXMLFiles"
    by (simp add: longbarrel_cmsIdealGeometryXML_cff_def)
  with t v geomXMLFiles_length show ?thesis by blast
qed

theorem assigned_list_has_101_entries_witness:
  "imports_ok (example_env [''Geometry/CMSCommonData/data/materials.xml'']) \<and>
   (\<exists>t ys. run_file (example_env [''Geometry/CMSCommonData/data/materials.xml'']) = Inr t \<and>
      geomXMLFiles_of t = Some (VString ys) \<and>
      length ys = 101 \<and> length ys = length geomXMLFiles \<and>
      longbarrel_cmsIdealGeometryXML_cff ! 2 =
        AssignAttrCall ''XMLIdealGeometryESSource'' ''geomXMLFiles'' ''cms'' ''vstring''
          geomXMLFiles)"
  by (rule conjI [OF example_env_ok assigned_list_has_101_entries [OF example_env_ok]])

text \<open>
  Claim C3. Every entry of the list is a non-empty relative path: it is not the empty
  string, it does not begin with a slash, and none of its characters is NUL, a newline,
  white space or any other character outside visible ASCII.
\<close>

theorem entries_relative_paths:
  assumes "p \<in> set geomXMLFiles"
  shows "p \<noteq> [] \<and> \<not> starts_with p ''/'' \<and> (\<forall>c\<in>set p. \<not> invalid_path_char c)"
  using assms entries_wellformed by (simp add: list_all_iff)

theorem entries_relative_paths_witness:
  "''Geometry/CMSCommonData/data/cms.xml'' \<in> set geomXMLFiles \<and>
   ''Geometry/CMSCommonData/data/cms.xml'' \<noteq> [] \<and>
   \<not> starts_with ''Geometry/CMSCommonData/data/cms.xml'' ''/'' \<and>
   list_all (\<lambda>c. \<not> invalid_path_char c) ''Geometry/CMSCommonData/data/cms.xml''"
  using entries_relative_paths [OF cms_xml_entry] cms_xml_entry
  unfolding list_all_iff by (intro conjI) (rule TrueI | elim conjE | assumption)+

text \<open>
  Claim C4. The entries are pairwise distinct: at two different indices of the list stand
  two different strings.
\<close>

theorem entries_pairwise_distinct:
  assumes "i < length geomXMLFiles" and "j < length geomXMLFiles" and "i \<noteq> j"
  shows "geomXMLFiles ! i \<noteq> geomXMLFiles ! j"
  using assms geomXMLFiles_distinct by (simp add: nth_eq_iff_index_eq)

theorem entries_pairwise_distinct_witness:
  "(0::nat) < length geomXMLFiles \<and> (1::nat) < length geomXMLFiles \<and> (0::nat) \<noteq> 1 \<and>
   geomXMLFiles ! 0 \<noteq> geomXMLFiles ! 1"
proof -
  have a: "0 < length geomXMLFiles" and b: "1 < length geomXMLFiles"
    by (simp_all add: geomXMLFiles_length)
  have c: "(0::nat) \<noteq> 1" by simp
  from entries_pairwise_distinct [OF a b c] a b c show ?thesis by blast
qed

text \<open>
  Claim C5, as stated, fails on the list. The volume entry \<^verbatim>\<open>cms.xml\<close> stands at
  index 3, before the materials entry \<^verbatim>\<open>pixfwdMaterials.xml\<close> at index 15 and before
  the rotations entry \<^verbatim>\<open>hcalrotations.xml\<close> at index 58.
\<close>

theorem load_order_counterexample:
  "is_volume_entry (geomXMLFiles ! 3) \<and> is_materials_entry (geomXMLFiles ! 15) \<and>
   is_rotations_entry (geomXMLFiles ! 58) \<and>
   \<not> all_before is_materials_entry is_volume_entry geomXMLFiles \<and>
   \<not> all_before is_rotations_entry is_volume_entry geomXMLFiles \<and>
   \<not> dependency_order geomXMLFiles"
proof -
  have k: "is_volume_entry (geomXMLFiles ! 3)" "is_materials_entry (geomXMLFiles ! 15)"
    "is_rotations_entry (geomXMLFiles ! 58)"
    by (simp_all only: entry_3 entry_15 entry_58 entry_kinds)
  have n: "\<not> all_before P Q geomXMLFiles"
    if "P (geomXMLFiles ! i)" "Q (geomXMLFiles ! j)" "i < 101" "j < 101" "\<not> i < j"
    for P Q :: "string \<Rightarrow> bool" and i j
    using that unfolding all_before_iff geomXMLFiles_length by blast
  have 1: "\<not> all_before is_materials_entry is_volume_entry geomXMLFiles"
    by (rule n [where P = is_materials_entry and Q = is_volume_entry and i = 15 and j = 3,
          OF k(2) k(1)]) simp_all
  have 2: "\<not> all_before is_rotations_entry is_volume_entry geomXMLFiles"
    by (rule n [where P = is_rotations_entry and Q = is_volume_entry and i = 58 and j = 3,
          OF k(3) k(1)]) simp_all
  from 1 have "\<not> dependency_order geomXMLFiles"
    by (simp add: dependency_order_def)
  with k 1 2 show ?thesis by blast
qed

text \<open>
  Claim C5, amended. The list opens with a materials entry (index 0) and a rotations entry
  (index 1), and these two stand before every detector-volume entry. The other materials
  entries (indices 15, 30, 41, 65, 77 and 85) and the other rotations entries (indices 58,
  75 and 78) stand after the volume entry \<^verbatim>\<open>cms.xml\<close> at index 3. Every
  detector-volume entry stands before every sens overlay entry and before every ProdCuts
  overlay entry.
\<close>

theorem load_order_as_built:
  "positions_from 0 is_materials_entry geomXMLFiles = [0, 15, 30, 41, 65, 77, 85] \<and>
   positions_from 0 is_rotations_entry geomXMLFiles = [1, 58, 75, 78] \<and>
   is_volume_entry (geomXMLFiles ! 3) \<and>
   (\<forall>j<length geomXMLFiles. is_volume_entry (geomXMLFiles ! j) \<longrightarrow> 1 < j) \<and>
   all_before is_volume_entry is_sens_entry geomXMLFiles \<and>
   all_before is_volume_entry is_prodcuts_entry geomXMLFiles"
proof -
  have m: "is_materials_entry (geomXMLFiles ! 0)" and r: "is_rotations_entry (geomXMLFiles ! 1)"
    and c: "is_volume_entry (geomXMLFiles ! 3)"
    by (simp_all only: entry_0 entry_1 entry_3 entry_kinds)
  have v: "1 < j" if "is_volume_entry (geomXMLFiles ! j)" for j
  proof (rule ccontr)
    assume "\<not> 1 < j"
    then have "j = 0 \<or> j = 1" by auto
    with m r that show False by (auto simp: is_volume_entry_def)
  qed
  from c v show ?thesis
    by (simp add: materials_positions rotations_positions volumes_before_overlays)
qed

theorem load_order_as_built_witness:
  "(3::nat) < length geomXMLFiles \<and> is_volume_entry (geomXMLFiles ! 3) \<and> (1::nat) < 3"
proof -
  have a: "3 < length geomXMLFiles"
    by (simp add: geomXMLFiles_length)
  from load_order_as_built have c: "is_volume_entry (geomXMLFiles ! 3)" by blast
  from load_order_as_built a c have "(1::nat) < 3" by blast
  with a c show ?thesis by blast
qed

text \<open>
  Claim C6. The file holds exactly one assignment to
  \<^verbatim>\<open>XMLIdealGeometryESSource.geomXMLFiles\<close>, and it is the last statement, so nothing in
  the file runs after it. A run that ends without an error leaves the loadable modules and
  the set of objects as they were, changes no attribute of any object other than
  \<^verbatim>\<open>geomXMLFiles\<close> of the object that \<^verbatim>\<open>XMLIdealGeometryESSource\<close> names, and
  binds no names other than those of its two import statements.
\<close>

theorem single_assignment_frame:
  "length (filter (assigns_to ''XMLIdealGeometryESSource'' ''geomXMLFiles'')
     longbarrel_cmsIdealGeometryXML_cff) = 1 \<and>
   last longbarrel_cmsIdealGeometryXML_cff =
     AssignAttrCall ''XMLIdealGeometryESSource'' ''geomXMLFiles'' ''cms'' ''vstring''
       geomXMLFiles \<and>
   (\<forall>s t. run_file s = Inr t \<longrightarrow>
      modules t = modules s \<and> dom (heap t) = dom (heap s) \<and>
      (\<forall>p b. field_at t p b \<noteq> field_at s p b \<longrightarrow>
         names t ''XMLIdealGeometryESSource'' = Some (Ref p) \<and> b = ''geomXMLFiles'') \<and>
      (\<exists>pc pi oi.
         modules s ''FWCore.ParameterSet.Config'' = Some pc \<and>
         modules s ''Geometry.CMSCommonData.cmsIdealGeometryXML_cfi'' = Some pi \<and>
         heap s pi = Some oi \<and>
         names t = star_bind oi ((names s)(''cms'' \<mapsto> Ref pc))))"
proof (intro conjI allI impI)
  show "length (filter (assigns_to ''XMLIdealGeometryESSource'' ''geomXMLFiles'')
     longbarrel_cmsIdealGeometryXML_cff) = 1"
    by (simp add: longbarrel_cmsIdealGeometryXML_cff_def)
  show "last longbarrel_cmsIdealGeometryXML_cff =
     AssignAttrCall ''XMLIdealGeometryESSource'' ''geomXMLFiles'' ''cms'' ''vstring''
       geomXMLFiles"
    by (simp add: longbarrel_cmsIdealGeometryXML_cff_def)
next
  fix s t assume "run_file s = Inr t"
  then have run: "exec_stmts
      [ImportAs ''FWCore.ParameterSet.Config'' ''cms'',
       FromImportStar ''Geometry.CMSCommonData.cmsIdealGeometryXML_cfi'',
       AssignAttrCall ''XMLIdealGeometryESSource'' ''geomXMLFiles'' ''cms'' ''vstring''
         geomXMLFiles] s = Inr t"
    by (simp only: run_file_def longbarrel_cmsIdealGeometryXML_cff_def)
  note shape = exec_three_shape [OF run]
  from shape show "modules t = modules s" by (rule conjunct1)
  from shape show "dom (heap t) = dom (heap s)" by (rule conjunct1 [OF conjunct2])
  from shape show "\<exists>pc pi oi.
         modules s ''FWCore.ParameterSet.Config'' = Some pc \<and>
         modules s ''Geometry.CMSCommonData.cmsIdealGeometryXML_cfi'' = Some pi \<and>
         heap s pi = Some oi \<and>
         names t = star_bind oi ((names s)(''cms'' \<mapsto> Ref pc))"
    by (rule conjunct2 [OF conjunct2])
  fix p b assume d: "field_at t p b \<noteq> field_at s p b"
  note fr = exec_three_frame [OF run d]
  from fr show "names t ''XMLIdealGeometryESSource'' = Some (Ref p)" by (rule conjunct1)
  from fr show "b = ''geomXMLFiles''" by (rule conjunct2)
qed

theorem single_assignment_frame_witness:
  "\<exists>t. run_file (example_env []) = Inr t \<and>
     modules t = modules (example_env []) \<and> dom (heap t) = dom (heap (example_env []))"
proof -
  from run_file_total [OF example_env_ok] obtain t where
    t: "run_file (example_env []) = Inr t" ..
  with single_assignment_frame have
    "modules t = modules (example_env []) \<and> dom (heap t) = dom (heap (example_env []))"
    by blast
  with t show ?thesis by blast
qed

text \<open>
  Claim C7. Writing the list as newline-delimited text and reading it back gives the list
  again, entry by entry and in order; so does writing it as a JSON array of strings and
  reading that back.
\<close>

theorem geomXMLFiles_round_trip:
  "from_lines (to_lines geomXMLFiles) = geomXMLFiles \<and>
   from_json (to_json geomXMLFiles) = Some geomXMLFiles"
  using entries_without_newline by (simp add: from_lines_to_lines from_json_to_json)

text \<open>Claim C8. Every entry of the list ends with \<^verbatim>\<open>.xml\<close>.\<close>

theorem entries_end_with_xml: "\<forall>p\<in>set geomXMLFiles. ends_with p ''.xml''"
  by (simp add: geomXMLFiles_def ends_with_def)

theorem entries_end_with_xml_witness:
  "ends_with ''Geometry/CMSCommonData/data/cms.xml'' ''.xml''"
  using entries_end_with_xml cms_xml_entry by (rule bspec)

text \<open>
  Claim C9. Every entry begins with \<^verbatim>\<open>Geometry/\<close> or with the long-barrel prefix
  \<^verbatim>\<open>SLHCUpgradeSimulations/Geometry/data/longbarrel/\<close>, and exactly 12 entries begin
  with the long-barrel prefix.
\<close>

theorem entries_prefixes:
  "(\<forall>p\<in>set geomXMLFiles. starts_with p ''Geometry/'' \<or> starts_with p longbarrel_prefix) \<and>
   length (filter (\<lambda>p. starts_with p longbarrel_prefix) geomXMLFiles) = 12"
  using entries_prefixed by (simp add: list_all_iff longbarrel_entries)

theorem entries_prefixes_witness:
  "starts_with ''Geometry/CMSCommonData/data/cms.xml'' ''Geometry/'' \<or>
   starts_with ''Geometry/CMSCommonData/data/cms.xml'' longbarrel_prefix"
  using conjunct1 [OF entries_prefixes] cms_xml_entry by (rule bspec)

text \<open>
  Claim C10. The assignment replaces the attribute: whatever the two imports deliver, and
  so whatever default list the imported fragment holds, any two runs of the file that end
  without an error leave the same value in
  \<^verbatim>\<open>XMLIdealGeometryESSource.geomXMLFiles\<close>, the list of the 101 literals.
\<close>

theorem geomXMLFiles_independent_of_default:
  assumes "run_file s1 = Inr t1" and "run_file s2 = Inr t2"
  shows "geomXMLFiles_of t1 = geomXMLFiles_of t2 \<and>
         geomXMLFiles_of t1 = Some (VString geomXMLFiles) \<and> length geomXMLFiles = 101"
  using run_file_result [OF assms(1)] run_file_result [OF assms(2)] geomXMLFiles_length
  by simp

theorem geomXMLFiles_independent_of_default_witness:
  "\<exists>t1 t2.
     run_file (example_env []) = Inr t1 \<and>
     run_file (example_env [''Geometry/CMSCommonData/data/materials.xml'']) = Inr t2 \<and>
     field_at (example_env []) 2 ''geomXMLFiles'' \<noteq>
       field_at (example_env [''Geometry/CMSCommonData/data/materials.xml'']) 2 ''geomXMLFiles'' \<and>
     geomXMLFiles_of t1 = geomXMLFiles_of t2 \<and>
     geomXMLFiles_of t1 = Some (VString geomXMLFiles) \<and> length geomXMLFiles = 101"
proof -
  from run_file_total [OF example_env_ok] obtain t1 where
    t1: "run_file (example_env []) = Inr t1" ..
  from run_file_total [OF example_env_ok] obtain t2 where
    t2: "run_file (example_env [''Geometry/CMSCommonData/data/materials.xml'']) = Inr t2" ..
  have d: "field_at (example_env []) 2 ''geomXMLFiles'' \<noteq>
       field_at (example_env [''Geometry/CMSCommonData/data/materials.xml'']) 2 ''geomXMLFiles''"
    by (simp add: field_at_def example_env_def)
  from geomXMLFiles_independent_of_default [OF t1 t2] t1 t2 d show ?thesis by blast
qed

end
